theory Spec2Isabelle
  imports Main
begin

text \<open>
  A model of \<^verbatim>\<open>server.py\<close>, the wish list server: the metadata extractor of
  \<^verbatim>\<open>fetch_metadata\<close> on a parsed document, and the routes under \<^verbatim>\<open>/api/<username>/\<close>
  as functions from the state of the database to an answer and the next state. What
  the program takes from libraries and from outside is a parameter: the fetched and
  parsed page, \<^verbatim>\<open>json.loads\<close>, \<^verbatim>\<open>urlparse\<close>, the date. A Python exception is a value
  of \<open>py_error\<close>, and every place of the modelled code that can raise has its branch.
  The request body is a JSON object whose \<^verbatim>\<open>url\<close> and \<^verbatim>\<open>link\<close>, when present, are
  strings.
\<close>

section \<open>Python values and exceptions\<close>

text \<open>
  The exceptions that the modelled part of \<^verbatim>\<open>server.py\<close> can raise. An expression
  that may raise returns \<open>py_error + 'a\<close>, with \<open>Inl\<close> for the exception.
\<close>

datatype py_error = KeyError | AttributeError | TypeError | IndexError | ValueError
  | InterfaceError

text \<open>
  A Python \<^verbatim>\<open>float\<close>: a finite value \<open>m * 2 ^ e\<close>, an infinity (with its sign)
  or NaN. The code only tests floats for truth.
\<close>

datatype py_float = FFinite int int | FInfinite bool | FNaN

text \<open>
  What \<^verbatim>\<open>json.loads\<close> returns: \<^verbatim>\<open>None\<close>, a bool, an int, a float, a str, a list or
  a dict. A dict is the list of its items in insertion order; its keys are distinct, and
  a key is looked up with \<open>map_of\<close>. The variable \<^verbatim>\<open>price\<close> of \<^verbatim>\<open>fetch_metadata\<close>
  holds such a value too: \<open>JNull\<close> is Python's \<^verbatim>\<open>None\<close>.
\<close>

datatype json = JNull | JBool bool | JInt int | JFloat py_float | JStr string
  | JArr "json list" | JObj "(string \<times> json) list"

text \<open>Truth value testing, as \<^verbatim>\<open>if price:\<close> and \<^verbatim>\<open>if not price:\<close> do it.\<close>

fun truthy :: "json \<Rightarrow> bool" where
  "truthy JNull = False"
| "truthy (JBool b) = b"
| "truthy (JInt i) = (i \<noteq> 0)"
| "truthy (JFloat (FFinite m e)) = (m \<noteq> 0)"
| "truthy (JFloat (FInfinite s)) = True"
| "truthy (JFloat FNaN) = True"
| "truthy (JStr s) = (s \<noteq> [])"
| "truthy (JArr xs) = (xs \<noteq> [])"
| "truthy (JObj kvs) = (kvs \<noteq> [])"

text \<open>\<^verbatim>\<open>needle in haystack\<close> on two strings: substring test.\<close>

fun str_contains :: "string \<Rightarrow> string \<Rightarrow> bool" where
  "str_contains needle [] = (needle = [])"
| "str_contains needle (c # cs) =
     (take (length needle) (c # cs) = needle \<or> str_contains needle cs)"

text \<open>
  \<^verbatim>\<open>str.strip()\<close>: drops leading and trailing whitespace. The whitespace characters
  of the ASCII range are modelled (tab, line feed, vertical tab, form feed, carriage
  return, the four separators 28 to 31, space).
\<close>

definition py_space :: "char \<Rightarrow> bool" where
  "py_space c = (of_char c \<in> {9, 10, 11, 12, 13, 28, 29, 30, 31, 32 :: nat})"

definition strip :: "string \<Rightarrow> string" where
  "strip s = rev (dropWhile py_space (rev (dropWhile py_space s)))"

section \<open>The parsed document\<close>

text \<open>
  \<^verbatim>\<open>BeautifulSoup(r.text, "html.parser")\<close> gives a tree of tags and strings. A tag
  has a name, a dict of attributes (each attribute the code reads, \<^verbatim>\<open>property\<close>,
  \<^verbatim>\<open>itemprop\<close>, \<^verbatim>\<open>type\<close>, \<^verbatim>\<open>content\<close>, is single-valued: a string) and a list
  of children. The document is the list of the top-level nodes.
\<close>

datatype node = NavigableString string
  | Tag (tag_name: string) (attrs: "string \<rightharpoonup> string") (contents: "node list")

type_synonym soup = "node list"

text \<open>The nodes below a node in document order (pre-order), the node itself first.\<close>

fun descendants :: "node \<Rightarrow> node list" where
  "descendants (NavigableString s) = [NavigableString s]"
| "descendants (Tag n a cs) = Tag n a cs # concat (map descendants cs)"

definition all_nodes :: "soup \<Rightarrow> node list" where
  "all_nodes doc = concat (map descendants doc)"

text \<open>
  \<^verbatim>\<open>soup.find(name, attr=value)\<close> and \<^verbatim>\<open>soup.find_all(name, attr=value)\<close>: the
  first, resp. all, tags in document order with that name and that attribute value.
  \<^verbatim>\<open>soup.title\<close> is \<^verbatim>\<open>soup.find("title")\<close>.
\<close>

fun tag_matches :: "string \<Rightarrow> (string \<times> string) option \<Rightarrow> node \<Rightarrow> bool" where
  "tag_matches name flt (NavigableString s) = False"
| "tag_matches name None (Tag n a cs) = (n = name)"
| "tag_matches name (Some (k, v)) (Tag n a cs) = (n = name \<and> a k = Some v)"

definition soup_find :: "soup \<Rightarrow> string \<Rightarrow> (string \<times> string) option \<Rightarrow> node option" where
  "soup_find doc name flt = List.find (tag_matches name flt) (all_nodes doc)"

definition soup_find_all :: "soup \<Rightarrow> string \<Rightarrow> (string \<times> string) option \<Rightarrow> node list" where
  "soup_find_all doc name flt = filter (tag_matches name flt) (all_nodes doc)"

text \<open>
  \<^verbatim>\<open>tag.string\<close>: the single string child of a tag, looked for through single tag
  children; \<^verbatim>\<open>None\<close> when a tag on the way has no child or more than one.
\<close>

fun tag_string :: "node \<Rightarrow> string option" where
  "tag_string (NavigableString s) = Some s"
| "tag_string (Tag n a [c]) = tag_string c"
| "tag_string (Tag n a cs) = None"

text \<open>\<^verbatim>\<open>tag["content"]\<close> raises \<^verbatim>\<open>KeyError\<close> on a missing attribute;
  \<^verbatim>\<open>tag.get("content")\<close> returns \<^verbatim>\<open>None\<close> there.\<close>

definition tag_getitem :: "node \<Rightarrow> string \<Rightarrow> py_error + string" where
  "tag_getitem t k = (case attrs t k of None \<Rightarrow> Inl KeyError | Some v \<Rightarrow> Inr v)"

definition tag_get :: "node \<Rightarrow> string \<Rightarrow> string option" where
  "tag_get t k = attrs t k"

section \<open>fetch\_metadata: the extractor\<close>

text \<open>
  \<^verbatim>\<open>def og(name): tag = soup.find("meta", property=f"og:{name}");
  return tag["content"] if tag else None\<close>. A tag is always true.
\<close>

definition og :: "soup \<Rightarrow> string \<Rightarrow> py_error + string option" where
  "og doc name =
     (case soup_find doc ''meta'' (Some (''property'', ''og:'' @ name)) of
        None \<Rightarrow> Inr None
      | Some t \<Rightarrow> (case tag_getitem t ''content'' of Inl e \<Rightarrow> Inl e | Inr c \<Rightarrow> Inr (Some c)))"

text \<open>
  \<^verbatim>\<open>title = og("title") or (soup.title.string.strip() if soup.title else None)\<close>.
  The right operand is evaluated when the left one is \<^verbatim>\<open>None\<close> or the empty string;
  \<^verbatim>\<open>.strip()\<close> on a \<^verbatim>\<open>None\<close> string raises \<^verbatim>\<open>AttributeError\<close>.
\<close>

definition title_fallback :: "soup \<Rightarrow> py_error + string option" where
  "title_fallback doc =
     (case soup_find doc ''title'' None of
        None \<Rightarrow> Inr None
      | Some t \<Rightarrow> (case tag_string t of None \<Rightarrow> Inl AttributeError
                                      | Some s \<Rightarrow> Inr (Some (strip s))))"

definition extract_title :: "soup \<Rightarrow> py_error + string option" where
  "extract_title doc =
     (case og doc ''title'' of
        Inl e \<Rightarrow> Inl e
      | Inr (Some c) \<Rightarrow> (if c \<noteq> [] then Inr (Some c) else title_fallback doc)
      | Inr None \<Rightarrow> title_fallback doc)"

text \<open>
  Price, step 1. \<^verbatim>\<open>price_tag = soup.find("meta", property="product:price:amount") or
  soup.find("meta", property="og:price:amount") or soup.find("meta", itemprop="price")\<close>:
  the first of the three lookups that finds a tag (a tag is true whatever it holds).
  Then \<^verbatim>\<open>if price_tag and price_tag.get("content"): price = price_tag["content"]\<close>.
\<close>

definition first_found :: "'a option \<Rightarrow> 'a option \<Rightarrow> 'a option" where
  "first_found a b = (case a of Some x \<Rightarrow> Some x | None \<Rightarrow> b)"

definition price_tag :: "soup \<Rightarrow> node option" where
  "price_tag doc =
     first_found (soup_find doc ''meta'' (Some (''property'', ''product:price:amount'')))
       (first_found (soup_find doc ''meta'' (Some (''property'', ''og:price:amount'')))
          (soup_find doc ''meta'' (Some (''itemprop'', ''price''))))"

definition meta_price :: "soup \<Rightarrow> json" where
  "meta_price doc =
     (case price_tag doc of
        None \<Rightarrow> JNull
      | Some t \<Rightarrow> (case tag_get t ''content'' of
                     None \<Rightarrow> JNull
                   | Some c \<Rightarrow> if c \<noteq> [] then JStr c else JNull))"

text \<open>
  Price, step 2: the loop over the JSON-LD blocks. Each Python operation of the loop
  body that can raise is a function into \<open>py_error + _\<close>.

  \<^verbatim>\<open>"offers" in obj\<close>: key test on a dict, substring test on a str, element test on a
  list, \<^verbatim>\<open>TypeError\<close> on \<^verbatim>\<open>None\<close>, a bool or a number.
\<close>

fun offers_in :: "json \<Rightarrow> py_error + bool" where
  "offers_in (JObj kvs) = Inr (map_of kvs ''offers'' \<noteq> None)"
| "offers_in (JStr s) = Inr (str_contains ''offers'' s)"
| "offers_in (JArr xs) = Inr (JStr ''offers'' \<in> set xs)"
| "offers_in v = Inl TypeError"

text \<open>\<^verbatim>\<open>obj["offers"]\<close>: a str or a list is indexed by integers only.\<close>

fun getitem_offers :: "json \<Rightarrow> py_error + json" where
  "getitem_offers (JObj kvs) =
     (case map_of kvs ''offers'' of None \<Rightarrow> Inl KeyError | Some v \<Rightarrow> Inr v)"
| "getitem_offers v = Inl TypeError"

text \<open>\<^verbatim>\<open>x.get("price")\<close>: only a dict has \<^verbatim>\<open>get\<close>; a missing key gives \<^verbatim>\<open>None\<close>.\<close>

fun get_price :: "json \<Rightarrow> py_error + json" where
  "get_price (JObj kvs) = Inr (case map_of kvs ''price'' of None \<Rightarrow> JNull | Some v \<Rightarrow> v)"
| "get_price v = Inl AttributeError"

text \<open>
  The value of \<^verbatim>\<open>price\<close> after \<^verbatim>\<open>if isinstance(offers, list): price =
  offers[0].get("price") elif isinstance(offers, dict): price = offers.get("price")\<close>,
  from its value \<open>p\<close> before: \<^verbatim>\<open>offers[0]\<close> raises \<^verbatim>\<open>IndexError\<close> on an empty list;
  offers that are neither a list nor a dict leave \<^verbatim>\<open>price\<close> as it is.
\<close>

fun offers_price :: "json \<Rightarrow> json \<Rightarrow> py_error + json" where
  "offers_price (JArr []) p = Inl IndexError"
| "offers_price (JArr (x # xs)) p = get_price x"
| "offers_price (JObj kvs) p = get_price (JObj kvs)"
| "offers_price v p = Inr p"

text \<open>
  \<^verbatim>\<open>for obj in objects: if "offers" in obj: offers = obj["offers"]; ...; if price: break\<close>.
  The result is the exception that left the loop, if any, and the value of \<^verbatim>\<open>price\<close>
  at that moment.
\<close>

fun scan_objects :: "json list \<Rightarrow> json \<Rightarrow> py_error option \<times> json" where
  "scan_objects [] p = (None, p)"
| "scan_objects (obj # objs) p =
     (case offers_in obj of
        Inl e \<Rightarrow> (Some e, p)
      | Inr False \<Rightarrow> scan_objects objs p
      | Inr True \<Rightarrow>
          (case getitem_offers obj of
             Inl e \<Rightarrow> (Some e, p)
           | Inr offers \<Rightarrow>
               (case offers_price offers p of
                  Inl e \<Rightarrow> (Some e, p)
                | Inr p' \<Rightarrow> if truthy p' then (None, p') else scan_objects objs p')))"

text \<open>
  What \<^verbatim>\<open>for obj in objects\<close> iterates over: the elements of a list, the keys of a
  dict, the characters of a str; anything else is not iterable.
\<close>

fun iterate :: "json \<Rightarrow> py_error + json list" where
  "iterate (JArr xs) = Inr xs"
| "iterate (JObj kvs) = Inr (map (\<lambda>kv. JStr (fst kv)) kvs)"
| "iterate (JStr s) = Inr (map (\<lambda>c. JStr [c]) s)"
| "iterate v = Inl TypeError"

text \<open>
  The body of \<^verbatim>\<open>try:\<close> after \<^verbatim>\<open>json.loads\<close>: \<^verbatim>\<open>if isinstance(data, dict):
  objects = data["@graph"] if "@graph" in data else [data]\<close>, then the loop.
\<close>

fun scan_block :: "json \<Rightarrow> json \<Rightarrow> py_error option \<times> json" where
  "scan_block (JObj kvs) p =
     (case iterate (case map_of kvs ''@graph'' of Some g \<Rightarrow> g | None \<Rightarrow> JArr [JObj kvs]) of
        Inl e \<Rightarrow> (Some e, p)
      | Inr objs \<Rightarrow> scan_objects objs p)"
| "scan_block v p = (None, p)"

text \<open>
  \<^verbatim>\<open>json.loads\<close> is a parameter \<open>loads\<close>: \<open>None\<close> when it raises.
  \<^verbatim>\<open>json.loads(script.string)\<close> raises \<^verbatim>\<open>TypeError\<close> when the string is \<^verbatim>\<open>None\<close>.
\<close>

definition load_script :: "(string \<Rightarrow> json option) \<Rightarrow> node \<Rightarrow> json option" where
  "load_script loads script = (case tag_string script of None \<Rightarrow> None | Some s \<Rightarrow> loads s)"

text \<open>
  \<^verbatim>\<open>for script in soup.find_all(...): try: ... except: continue; if price: break\<close>.
  Any exception of the body goes to the next script, with \<^verbatim>\<open>price\<close> as it was when
  the exception was raised.
\<close>

fun scan_scripts :: "(string \<Rightarrow> json option) \<Rightarrow> node list \<Rightarrow> json \<Rightarrow> json" where
  "scan_scripts loads [] p = p"
| "scan_scripts loads (script # scripts) p =
     (case load_script loads script of
        None \<Rightarrow> scan_scripts loads scripts p
      | Some data \<Rightarrow>
          (case scan_block data p of
             (Some e, p') \<Rightarrow> scan_scripts loads scripts p'
           | (None, p') \<Rightarrow> if truthy p' then p' else scan_scripts loads scripts p'))"

definition ld_scripts :: "soup \<Rightarrow> node list" where
  "ld_scripts doc = soup_find_all doc ''script'' (Some (''type'', ''application/ld+json''))"

definition scrape_price :: "(string \<Rightarrow> json option) \<Rightarrow> soup \<Rightarrow> json" where
  "scrape_price loads doc =
     (let price = meta_price doc
      in if \<not> truthy price then scan_scripts loads (ld_scripts doc) price else price)"

text \<open>
  The part of \<^verbatim>\<open>fetch_metadata\<close> after the request: title, description, image and
  price in the order the code computes them, so the first exception is the one raised.
\<close>

type_synonym metadata = "string option \<times> string option \<times> string option \<times> json"

definition extract_metadata :: "(string \<Rightarrow> json option) \<Rightarrow> soup \<Rightarrow> py_error + metadata" where
  "extract_metadata loads doc =
     (case extract_title doc of
        Inl e \<Rightarrow> Inl e
      | Inr ttl \<Rightarrow>
          (case og doc ''description'' of
             Inl e \<Rightarrow> Inl e
           | Inr descr \<Rightarrow>
               (case og doc ''image'' of
                  Inl e \<Rightarrow> Inl e
                | Inr img \<Rightarrow> Inr (ttl, descr, img, scrape_price loads doc))))"

section \<open>The database\<close>

text \<open>
  The two tables of \<^verbatim>\<open>init_db\<close>. A table is the list of its rows in rowid order, the
  order in which SQLite scans a table that has no other index; \<^verbatim>\<open>fetchone()\<close> gives
  the first row of that scan which satisfies the \<^verbatim>\<open>WHERE\<close> clause. The columns
  \<^verbatim>\<open>users.id\<close>, \<^verbatim>\<open>items.id\<close> and \<^verbatim>\<open>items.image\<close> are \<open>uid\<close>, \<open>item_id\<close> and
  \<open>image_url\<close> here.
\<close>

record user_row =
  uid :: nat
  username :: string
  external_link :: "string option"

record item_row =
  item_id :: nat
  user_id :: "nat option"
  url :: string
  title :: "string option"
  description :: "string option"
  image_url :: "string option"
  price :: "string option"
  source :: "string option"
  added_date :: "string option"
  purchased :: bool
  archived :: bool

text \<open>
  The state a request runs in: both tables, the \<^verbatim>\<open>AUTOINCREMENT\<close> counters of
  SQLite's \<^verbatim>\<open>sqlite_sequence\<close>, and the log of the urls that \<^verbatim>\<open>requests.get\<close> was
  called with, which records whether a request fetched a page.
\<close>

record state =
  users :: "user_row list"
  items :: "item_row list"
  user_seq :: nat
  item_seq :: nat
  fetched :: "string list"

text \<open>
  What a request takes from outside the program: the date of \<^verbatim>\<open>date.today().isoformat()\<close>;
  \<open>fetch\<close>, the request and the parse of \<^verbatim>\<open>fetch_metadata\<close> (\<open>None\<close> when
  \<^verbatim>\<open>requests.get\<close> or \<^verbatim>\<open>raise_for_status\<close> raises); \<^verbatim>\<open>json.loads\<close>;
  \<^verbatim>\<open>urlparse(url).netloc\<close>, which raises \<^verbatim>\<open>ValueError\<close> on some urls; and the text
  SQLite stores for a bool or a number bound to a \<^verbatim>\<open>TEXT\<close> column.
\<close>

record env =
  today :: string
  fetch :: "string \<Rightarrow> soup option"
  loads :: "string \<Rightarrow> json option"
  netloc :: "string \<Rightarrow> py_error + string"
  bind_number :: "json \<Rightarrow> py_error + string"

text \<open>\<^verbatim>\<open>UPDATE t SET ... WHERE c\<close>, its \<^verbatim>\<open>rowcount\<close>, and \<^verbatim>\<open>DELETE FROM t WHERE c\<close>.\<close>

definition sql_update :: "('r \<Rightarrow> bool) \<Rightarrow> ('r \<Rightarrow> 'r) \<Rightarrow> 'r list \<Rightarrow> 'r list" where
  "sql_update c f rows = map (\<lambda>r. if c r then f r else r) rows"

definition rowcount :: "('r \<Rightarrow> bool) \<Rightarrow> 'r list \<Rightarrow> nat" where
  "rowcount c rows = length (filter c rows)"


text \<open>
  The rowid an \<^verbatim>\<open>AUTOINCREMENT\<close> table gives a new row: one more than the largest
  rowid the table has ever held.
\<close>

definition next_rowid :: "nat \<Rightarrow> nat list \<Rightarrow> nat" where
  "next_rowid seq ids = Suc (fold max ids seq)"

text \<open>
  \<^verbatim>\<open>WHERE user_id = ? AND url = ?\<close>. Either parameter may be \<^verbatim>\<open>None\<close> (a request
  body without \<^verbatim>\<open>url\<close>): a comparison with \<^verbatim>\<open>NULL\<close> selects no row.
\<close>

fun key_match :: "nat option \<Rightarrow> string option \<Rightarrow> item_row \<Rightarrow> bool" where
  "key_match (Some u) (Some l) r = (user_id r = Some u \<and> url r = l)"
| "key_match u l r = False"

fun user_match :: "nat option \<Rightarrow> item_row \<Rightarrow> bool" where
  "user_match (Some u) r = (user_id r = Some u)"
| "user_match None r = False"

section \<open>The lifecycle controller\<close>

definition get_user_id :: "state \<Rightarrow> string \<Rightarrow> bool \<Rightarrow> nat option \<times> state" where
  "get_user_id s name create =
     (case List.find (\<lambda>u. username u = name) (users s) of
        Some row \<Rightarrow> (Some (uid row), s)
      | None \<Rightarrow>
          if \<not> create then (None, s)
          else (let n = next_rowid (user_seq s) (map uid (users s))
                in (Some n,
                    s\<lparr>users := users s @ [\<lparr>uid = n, username = name, external_link = None\<rparr>],
                      user_seq := n\<rparr>)))"

text \<open>The JSON answers of the routes; \<open>ServerError\<close> is an exception that no handler
  catches (the request ends with status 500).\<close>

record entry =
  e_url :: string
  e_title :: "string option"
  e_description :: "string option"
  e_image :: "string option"
  e_price :: "string option"
  e_source :: "string option"
  e_added :: "string option"
  e_purchased :: bool

datatype response = Added "string option" | Exists | AddRestored "string option"
  | NoUrl | Deleted | Marked | Unmarked | Archived nat | Restored | ExistsActive
  | Listing "entry list" | Info "string option" | NotFound | Updated "string option"
  | ServerError py_error





text \<open>
  \<^verbatim>\<open>fetch_metadata(url)\<close>: a failed request gives four \<^verbatim>\<open>None\<close>s; an exception of the
  extraction is not caught.
\<close>

definition fetch_metadata :: "env \<Rightarrow> string \<Rightarrow> py_error + metadata" where
  "fetch_metadata e l =
     (case fetch e l of
        None \<Rightarrow> Inr (None, None, None, JNull)
      | Some doc \<Rightarrow> extract_metadata (loads e) doc)"

text \<open>
  The value bound to the \<^verbatim>\<open>price\<close> parameter of the \<^verbatim>\<open>INSERT\<close>: \<^verbatim>\<open>sqlite3\<close>
  refuses a list or a dict.
\<close>

fun bind_price :: "env \<Rightarrow> json \<Rightarrow> py_error + string option" where
  "bind_price e JNull = Inr None"
| "bind_price e (JStr s) = Inr (Some s)"
| "bind_price e (JArr xs) = Inl InterfaceError"
| "bind_price e (JObj kvs) = Inl InterfaceError"
| "bind_price e v = (case bind_number e v of Inl x \<Rightarrow> Inl x | Inr t \<Rightarrow> Inr (Some t))"

text \<open>The \<^verbatim>\<open>INSERT\<close> of \<^verbatim>\<open>add_item\<close>.\<close>

definition insert_item :: "env \<Rightarrow> state \<Rightarrow> nat option \<Rightarrow> string \<Rightarrow> string option \<Rightarrow> string option
    \<Rightarrow> string option \<Rightarrow> string option \<Rightarrow> string \<Rightarrow> state" where
  "insert_item e s u l ttl descr img pr src =
     (let n = next_rowid (item_seq s) (map item_id (items s))
      in s\<lparr>items := items s @
              [\<lparr>item_id = n, user_id = u, url = l, title = ttl, description = descr,
                image_url = img, price = pr, source = Some src, added_date = Some (today e),
                purchased = False, archived = False\<rparr>],
            item_seq := n\<rparr>)"

text \<open>
  \<^verbatim>\<open>add_item\<close>. \<open>body_url\<close> is \<^verbatim>\<open>data.get("url")\<close>; \<^verbatim>\<open>if not url\<close> is true of
  \<^verbatim>\<open>None\<close> and of the empty string. The arguments of the \<^verbatim>\<open>INSERT\<close> are evaluated
  before they are bound, so \<^verbatim>\<open>urlparse\<close> raises before \<^verbatim>\<open>sqlite3\<close> does. After the
  \<^verbatim>\<open>UPDATE\<close> of the restore branch, \<^verbatim>\<open>cur.fetchone()['title']\<close> raises
  \<^verbatim>\<open>TypeError\<close> if no row has the id.
\<close>

definition add_new :: "env \<Rightarrow> state \<Rightarrow> nat option \<Rightarrow> string \<Rightarrow> response \<times> state" where
  "add_new e s u l =
     (let s2 = s\<lparr>fetched := fetched s @ [l]\<rparr>
      in case fetch_metadata e l of
           Inl x \<Rightarrow> (ServerError x, s2)
         | Inr (ttl, descr, img, pr) \<Rightarrow>
             (case netloc e l of
                Inl x \<Rightarrow> (ServerError x, s2)
              | Inr src \<Rightarrow>
                  (case bind_price e pr of
                     Inl x \<Rightarrow> (ServerError x, s2)
                   | Inr p \<Rightarrow> (Added ttl, insert_item e s2 u l ttl descr img p src))))"

definition restore_row :: "env \<Rightarrow> item_row \<Rightarrow> item_row" where
  "restore_row e r = r\<lparr>archived := False, purchased := False, added_date := Some (today e)\<rparr>"

definition add_item :: "env \<Rightarrow> state \<Rightarrow> string \<Rightarrow> string option \<Rightarrow> response \<times> state" where
  "add_item e s name body_url =
     (case body_url of
        None \<Rightarrow> (NoUrl, s)
      | Some l \<Rightarrow>
          if l = [] then (NoUrl, s)
          else (case get_user_id s name True of
                  (u, s1) \<Rightarrow>
                    (case List.find (key_match u (Some l)) (items s1) of
                       Some row \<Rightarrow>
                         if archived row
                         then (let s2 = s1\<lparr>items := sql_update (\<lambda>r. item_id r = item_id row)
                                                     (restore_row e) (items s1)\<rparr>
                               in case List.find (\<lambda>r. item_id r = item_id row) (items s2) of
                                    Some r \<Rightarrow> (AddRestored (title r), s2)
                                  | None \<Rightarrow> (ServerError TypeError, s2))
                         else (Exists, s1)
                     | None \<Rightarrow> add_new e s1 u l)))"


definition mark_purchased :: "state \<Rightarrow> string \<Rightarrow> string option \<Rightarrow> response \<times> state" where
  "mark_purchased s name body_url =
     (case get_user_id s name True of
        (u, s1) \<Rightarrow>
          (Marked, s1\<lparr>items := sql_update (key_match u body_url)
                                  (\<lambda>r. r\<lparr>purchased := True\<rparr>) (items s1)\<rparr>))"

definition unmark_purchased :: "state \<Rightarrow> string \<Rightarrow> string option \<Rightarrow> response \<times> state" where
  "unmark_purchased s name body_url =
     (case get_user_id s name True of
        (u, s1) \<Rightarrow>
          (Unmarked, s1\<lparr>items := sql_update (key_match u body_url)
                                    (\<lambda>r. r\<lparr>purchased := False\<rparr>) (items s1)\<rparr>))"

definition to_archive :: "nat option \<Rightarrow> item_row \<Rightarrow> bool" where
  "to_archive u r = (user_match u r \<and> purchased r \<and> \<not> archived r)"

definition archive_purchased :: "state \<Rightarrow> string \<Rightarrow> response \<times> state" where
  "archive_purchased s name =
     (case get_user_id s name True of
        (u, s1) \<Rightarrow>
          (Archived (rowcount (to_archive u) (items s1)),
           s1\<lparr>items := sql_update (to_archive u) (\<lambda>r. r\<lparr>archived := True\<rparr>) (items s1)\<rparr>))"

definition restore_item :: "state \<Rightarrow> string \<Rightarrow> string option \<Rightarrow> response \<times> state" where
  "restore_item s name body_url =
     (case get_user_id s name True of
        (u, s1) \<Rightarrow>
          (case List.find (\<lambda>r. key_match u body_url r \<and> \<not> archived r) (items s1) of
             Some row \<Rightarrow> (ExistsActive, s1)
           | None \<Rightarrow>
               (Restored, s1\<lparr>items := sql_update (key_match u body_url)
                                         (\<lambda>r. r\<lparr>archived := False, purchased := False\<rparr>)
                                         (items s1)\<rparr>)))"



text \<open>The user id a request for \<open>name\<close> runs under, and the state after the lookup.\<close>

definition request_user :: "state \<Rightarrow> string \<Rightarrow> nat option" where
  "request_user s name = fst (get_user_id s name True)"

definition has_user :: "state \<Rightarrow> string \<Rightarrow> bool" where
  "has_user s name = (List.find (\<lambda>u. username u = name) (users s) \<noteq> None)"

section \<open>The JSON-LD scan in the words of the specification\<close>

text \<open>
  A second description of the JSON-LD scan, to compare \<open>scan_scripts\<close> with. It follows
  section 4.2 of the specification: blocks in document order, a block that does not parse
  is passed over, the candidates of a block are the elements of its \<^verbatim>\<open>@graph\<close> array or
  else the object itself, a candidate with \<^verbatim>\<open>offers\<close> gives the price of the first
  element of a list or the price of a single object, and the first non-empty price ends
  the scan. Where the specification is silent, the description says what the
  \<^verbatim>\<open>try ... except: continue\<close> around a block does: a candidate whose inspection
  raises ends the block without a price, and a \<^verbatim>\<open>@graph\<close> that is not an array gives
  no candidate.
\<close>

datatype finding = Price json | NoPrice | Raises

text \<open>The price of one offer: it is an object, and its price counts when it is non-empty.\<close>

fun spec_offer_price :: "json \<Rightarrow> finding" where
  "spec_offer_price (JObj kvs) =
     (case map_of kvs ''price'' of
        None \<Rightarrow> NoPrice
      | Some v \<Rightarrow> if truthy v then Price v else NoPrice)"
| "spec_offer_price v = Raises"

text \<open>The \<^verbatim>\<open>offers\<close> field: a list gives its first element's price, an object its own.\<close>

fun spec_offers_price :: "json \<Rightarrow> finding" where
  "spec_offers_price (JArr []) = Raises"
| "spec_offers_price (JArr (x # xs)) = spec_offer_price x"
| "spec_offers_price (JObj kvs) = spec_offer_price (JObj kvs)"
| "spec_offers_price v = NoPrice"

text \<open>
  One candidate. A candidate that is not an object raises, except a string or a list that
  does not contain \<^verbatim>\<open>"offers"\<close>, which is passed over.
\<close>

fun spec_candidate_price :: "json \<Rightarrow> finding" where
  "spec_candidate_price (JObj kvs) =
     (case map_of kvs ''offers'' of
        None \<Rightarrow> NoPrice
      | Some offers \<Rightarrow> spec_offers_price offers)"
| "spec_candidate_price (JStr s) = (if str_contains ''offers'' s then Raises else NoPrice)"
| "spec_candidate_price (JArr xs) = (if JStr ''offers'' \<in> set xs then Raises else NoPrice)"
| "spec_candidate_price v = Raises"

text \<open>The first non-empty price among the candidates of a block, unless one raises before.\<close>

fun spec_first_price :: "json list \<Rightarrow> json option" where
  "spec_first_price [] = None"
| "spec_first_price (c # cs) =
     (case spec_candidate_price c of
        Price v \<Rightarrow> Some v
      | NoPrice \<Rightarrow> spec_first_price cs
      | Raises \<Rightarrow> None)"

fun spec_candidates :: "json \<Rightarrow> json list" where
  "spec_candidates (JObj kvs) =
     (case map_of kvs ''@graph'' of
        None \<Rightarrow> [JObj kvs]
      | Some (JArr xs) \<Rightarrow> xs
      | Some v \<Rightarrow> [])"
| "spec_candidates v = []"

definition spec_block_price :: "(string \<Rightarrow> json option) \<Rightarrow> node \<Rightarrow> json option" where
  "spec_block_price parse script =
     (case load_script parse script of
        None \<Rightarrow> None
      | Some data \<Rightarrow> spec_first_price (spec_candidates data))"

fun spec_jsonld_price :: "(string \<Rightarrow> json option) \<Rightarrow> node list \<Rightarrow> json option" where
  "spec_jsonld_price parse [] = None"
| "spec_jsonld_price parse (b # bs) =
     (case spec_block_price parse b of
        Some v \<Rightarrow> Some v
      | None \<Rightarrow> spec_jsonld_price parse bs)"

section \<open>Example states\<close>

text \<open>A database with the one user \<^verbatim>\<open>ann\<close> (id 1), used to run the routes on.\<close>

definition demo_users :: "user_row list" where
  "demo_users = [\<lparr>uid = 1, username = ''ann'', external_link = None\<rparr>]"

definition demo_row :: "nat \<Rightarrow> string \<Rightarrow> bool \<Rightarrow> bool \<Rightarrow> item_row" where
  "demo_row n l p a = \<lparr>item_id = n, user_id = Some 1, url = l, title = Some ''Lamp'',
     description = None, image_url = None, price = None, source = Some ''shop.example'',
     added_date = Some ''2024-01-01'', purchased = p, archived = a\<rparr>"

definition demo_state :: "item_row list \<Rightarrow> state" where
  "demo_state rows = \<lparr>users = demo_users, items = rows, user_seq = 1, item_seq = 9, fetched = []\<rparr>"

text \<open>
  An environment in which every request for a page fails and no JSON parses. Its
  \<open>netloc\<close> stands in for \<^verbatim>\<open>urlparse(url).netloc\<close> on the urls used below: the text
  between \<^verbatim>\<open>http://\<close> and the next slash, and \<^verbatim>\<open>ValueError\<close> for \<^verbatim>\<open>http://[\<close>,
  whose bracket is not closed (\<^verbatim>\<open>urlsplit\<close> raises "Invalid IPv6 URL").
\<close>

definition demo_env :: env where
  "demo_env = \<lparr>today = ''2024-06-01'', fetch = (\<lambda>l. None), loads = (\<lambda>t. None),
     netloc = (\<lambda>l. if l = ''http://['' then Inl ValueError
                    else Inr (takeWhile (\<lambda>c. c \<noteq> CHR ''/'') (drop 7 l))),
     bind_number = (\<lambda>v. Inl InterfaceError)\<rparr>"

text \<open>
  Example documents: a \<^verbatim>\<open>meta\<close> tag with one attribute and, when given, a
  \<^verbatim>\<open>content\<close>; a JSON-LD script with its text. \<open>demo_loads\<close> stands in for
  \<^verbatim>\<open>json.loads\<close> on the texts used below, and fails on every other text.
\<close>

definition meta :: "string \<Rightarrow> string \<Rightarrow> string option \<Rightarrow> node" where
  "meta k v c =
     Tag ''meta'' (case c of None \<Rightarrow> [k \<mapsto> v] | Some t \<Rightarrow> [k \<mapsto> v, ''content'' \<mapsto> t]) []"

definition ld_script :: "string \<Rightarrow> node" where
  "ld_script t = Tag ''script'' [''type'' \<mapsto> ''application/ld+json''] [NavigableString t]"

definition graph_block_text :: string where
  \<open>graph_block_text = ''{"@graph":[{"offers":{"price":"42.00"}}]}''\<close>

definition graph_block_json :: json where
  "graph_block_json =
     JObj [(''@graph'', JArr [JObj [(''offers'', JObj [(''price'', JStr ''42.00'')])]])]"

definition offer_block_text :: string where
  \<open>offer_block_text = ''{"offers":[{"price":"29.99"}]}''\<close>

definition offer_block_json :: json where
  "offer_block_json = JObj [(''offers'', JArr [JObj [(''price'', JStr ''29.99'')]])]"

definition empty_offers_text :: string where
  \<open>empty_offers_text = ''{"@graph":[{"offers":[]},{"offers":{"price":"5"}}]}''\<close>

definition empty_offers_json :: json where
  "empty_offers_json =
     JObj [(''@graph'', JArr [JObj [(''offers'', JArr [])],
                              JObj [(''offers'', JObj [(''price'', JStr ''5'')])]])]"

definition graph_object_text :: string where
  \<open>graph_object_text = ''{"@graph":{"@type":"Product"},"offers":{"price":"5"}}''\<close>

definition graph_object_json :: json where
  "graph_object_json =
     JObj [(''@graph'', JObj [(''@type'', JStr ''Product'')]),
           (''offers'', JObj [(''price'', JStr ''5'')])]"

definition broken_block_text :: string where
  \<open>broken_block_text = ''{"offers":''\<close>

definition demo_loads :: "string \<Rightarrow> json option" where
  "demo_loads = map_of [(graph_block_text, graph_block_json),
     (offer_block_text, offer_block_json), (empty_offers_text, empty_offers_json),
     (graph_object_text, graph_object_json)]"

section \<open>The user lookup and the SQL statements\<close>

lemma get_user_id_items: "items (snd (get_user_id s name c)) = items s"
  by (simp add: get_user_id_def Let_def split: option.splits)

lemma get_user_id_fetched: "fetched (snd (get_user_id s name c)) = fetched s"
  by (simp add: get_user_id_def Let_def split: option.splits)

lemma get_user_id_item_seq: "item_seq (snd (get_user_id s name c)) = item_seq s"
  by (simp add: get_user_id_def Let_def split: option.splits)

lemma get_user_id_existing: "has_user s name \<Longrightarrow> snd (get_user_id s name c) = s"
  by (auto simp add: get_user_id_def has_user_def Let_def split: option.splits)

lemma sql_update_length: "length (sql_update c f rows) = length rows"
  by (simp add: sql_update_def)

lemma sql_update_nth:
  "i < length rows \<Longrightarrow> sql_update c f rows ! i = (if c (rows ! i) then f (rows ! i) else rows ! i)"
  by (simp add: sql_update_def)

lemma rowcount_card: "rowcount c rows = card {i. i < length rows \<and> c (rows ! i)}"
  by (simp add: rowcount_def length_filter_conv_card)

lemma demo_request_user: "request_user (demo_state rows) ''ann'' = Some 1"
  by (simp add: request_user_def get_user_id_def demo_state_def demo_users_def)

section \<open>mark\_purchased and unmark\_purchased\<close>

lemma mark_purchased_eq:
  "mark_purchased s name b =
     (Marked, (snd (get_user_id s name True))\<lparr>items :=
        sql_update (key_match (request_user s name) b) (\<lambda>r. r\<lparr>purchased := True\<rparr>) (items s)\<rparr>)"
  using get_user_id_items [of s name True]
  by (cases "get_user_id s name True") (simp add: mark_purchased_def request_user_def)

lemma unmark_purchased_eq:
  "unmark_purchased s name b =
     (Unmarked, (snd (get_user_id s name True))\<lparr>items :=
        sql_update (key_match (request_user s name) b) (\<lambda>r. r\<lparr>purchased := False\<rparr>) (items s)\<rparr>)"
  using get_user_id_items [of s name True]
  by (cases "get_user_id s name True") (simp add: unmark_purchased_def request_user_def)

text \<open>
  Claim C9. For every state, user name and request url, \<^verbatim>\<open>mark_purchased\<close> answers
  \<^verbatim>\<open>marked\<close> and \<^verbatim>\<open>unmark_purchased\<close> answers \<^verbatim>\<open>unmarked\<close>; the table keeps its
  rows in place; every row whose \<^verbatim>\<open>(user_id, url)\<close> is the key of the request, archived
  or not, becomes the same row with \<^verbatim>\<open>purchased\<close> set to true (resp. false), and every
  other row stays as it was.
\<close>

theorem purchased_flag_rows:
  "fst (mark_purchased s name b) = Marked \<and>
   fst (unmark_purchased s name b) = Unmarked \<and>
   length (items (snd (mark_purchased s name b))) = length (items s) \<and>
   length (items (snd (unmark_purchased s name b))) = length (items s) \<and>
   (\<forall>i < length (items s).
      items (snd (mark_purchased s name b)) ! i =
        (if key_match (request_user s name) b (items s ! i)
         then (items s ! i)\<lparr>purchased := True\<rparr> else items s ! i) \<and>
      items (snd (unmark_purchased s name b)) ! i =
        (if key_match (request_user s name) b (items s ! i)
         then (items s ! i)\<lparr>purchased := False\<rparr> else items s ! i))"
  by (simp add: mark_purchased_eq unmark_purchased_eq sql_update_length sql_update_nth)

text \<open>
  On an archived row of \<^verbatim>\<open>ann\<close> for the url and an active row for another url:
  marking changes the archived row, unmarking leaves the other row alone.
\<close>

theorem purchased_flag_rows_witness:
  "items (snd (mark_purchased
       (demo_state [demo_row 1 ''http://a'' False True, demo_row 2 ''http://b'' False False])
       ''ann'' (Some ''http://a''))) ! 0 = demo_row 1 ''http://a'' True True \<and>
   items (snd (unmark_purchased
       (demo_state [demo_row 1 ''http://a'' True True, demo_row 2 ''http://b'' True False])
       ''ann'' (Some ''http://a''))) ! 1 = demo_row 2 ''http://b'' True False"
  using purchased_flag_rows [of "demo_state [demo_row 1 ''http://a'' False True,
        demo_row 2 ''http://b'' False False]" "''ann''" "Some ''http://a''"]
    purchased_flag_rows [of "demo_state [demo_row 1 ''http://a'' True True,
        demo_row 2 ''http://b'' True False]" "''ann''" "Some ''http://a''"]
  by (simp add: demo_request_user) (simp add: demo_state_def demo_row_def)

section \<open>archive\_purchased\<close>

lemma archive_purchased_eq:
  "archive_purchased s name =
     (Archived (rowcount (to_archive (request_user s name)) (items s)),
      (snd (get_user_id s name True))\<lparr>items :=
         sql_update (to_archive (request_user s name)) (\<lambda>r. r\<lparr>archived := True\<rparr>) (items s)\<rparr>)"
  using get_user_id_items [of s name True]
  by (cases "get_user_id s name True") (simp add: archive_purchased_def request_user_def)

lemma archived_update_neq: "\<not> archived r \<Longrightarrow> r\<lparr>archived := True\<rparr> \<noteq> r"
  by (metis item_row.select_convs(11) item_row.surjective item_row.update_convs(11))

text \<open>
  Claim C8. For every state and user name, \<^verbatim>\<open>archive_purchased\<close> keeps the rows in
  place; a row of that user with \<^verbatim>\<open>purchased\<close> true and \<^verbatim>\<open>archived\<close> false becomes
  the same row with \<^verbatim>\<open>archived\<close> true and every other row stays as it was; the count
  it reports is the number of rows that changed; a row with \<^verbatim>\<open>purchased\<close> false is never
  changed.
\<close>

theorem archive_purchased_rows:
  "length (items (snd (archive_purchased s name))) = length (items s) \<and>
   (\<forall>i < length (items s).
      items (snd (archive_purchased s name)) ! i =
        (if user_match (request_user s name) (items s ! i) \<and> purchased (items s ! i)
            \<and> \<not> archived (items s ! i)
         then (items s ! i)\<lparr>archived := True\<rparr> else items s ! i)) \<and>
   fst (archive_purchased s name) =
     Archived (card {i. i < length (items s) \<and>
                        items (snd (archive_purchased s name)) ! i \<noteq> items s ! i}) \<and>
   (\<forall>i < length (items s). \<not> purchased (items s ! i) \<longrightarrow>
      items (snd (archive_purchased s name)) ! i = items s ! i)"
proof -
  let ?c = "to_archive (request_user s name)"
  let ?s' = "snd (archive_purchased s name)"
  have rows: "items ?s' = sql_update ?c (\<lambda>r. r\<lparr>archived := True\<rparr>) (items s)"
    by (simp add: archive_purchased_eq)
  have nth: "items ?s' ! i = (if ?c (items s ! i) then (items s ! i)\<lparr>archived := True\<rparr> else items s ! i)"
    if "i < length (items s)" for i
    using that by (simp add: rows sql_update_nth)
  have changed: "{i. i < length (items s) \<and> items ?s' ! i \<noteq> items s ! i} =
      {i. i < length (items s) \<and> ?c (items s ! i)}"
  proof -
    have "(items ?s' ! i \<noteq> items s ! i) = ?c (items s ! i)" if "i < length (items s)" for i
      using nth [OF that] archived_update_neq [of "items s ! i"]
      by (cases "?c (items s ! i)") (simp_all add: to_archive_def)
    then show ?thesis by auto
  qed
  have count: "fst (archive_purchased s name) =
      Archived (card {i. i < length (items s) \<and> ?c (items s ! i)})"
    by (simp add: archive_purchased_eq rowcount_card)
  have len: "length (items ?s') = length (items s)"
    by (simp add: rows sql_update_length)
  have each: "\<forall>i < length (items s). items ?s' ! i =
        (if user_match (request_user s name) (items s ! i) \<and> purchased (items s ! i)
            \<and> \<not> archived (items s ! i)
         then (items s ! i)\<lparr>archived := True\<rparr> else items s ! i)"
    using nth by (simp add: to_archive_def)
  have unpurchased: "\<forall>i < length (items s). \<not> purchased (items s ! i) \<longrightarrow>
      items ?s' ! i = items s ! i"
    using nth by (simp add: to_archive_def)
  have counted: "fst (archive_purchased s name) =
     Archived (card {i. i < length (items s) \<and> items ?s' ! i \<noteq> items s ! i})"
    by (simp only: count changed)
  from len each counted unpurchased show ?thesis by blast
qed

text \<open>
  The rows A (purchased, active), B (not purchased, active) and C (purchased, archived)
  of the specification: only A changes and the count is 1.
\<close>

theorem archive_purchased_rows_witness:
  "archive_purchased (demo_state [demo_row 1 ''http://a'' True False,
       demo_row 2 ''http://b'' False False, demo_row 3 ''http://c'' True True]) ''ann'' =
     (Archived 1, demo_state [demo_row 1 ''http://a'' True True,
       demo_row 2 ''http://b'' False False, demo_row 3 ''http://c'' True True])"
  using archive_purchased_rows [of "demo_state [demo_row 1 ''http://a'' True False,
       demo_row 2 ''http://b'' False False, demo_row 3 ''http://c'' True True]" "''ann''"]
  by (simp add: archive_purchased_def get_user_id_def demo_state_def demo_users_def demo_row_def
        to_archive_def rowcount_def sql_update_def)

section \<open>restore\_item\<close>

lemma restore_item_refuses:
  assumes "List.find (\<lambda>r. key_match (request_user s name) b r \<and> \<not> archived r) (items s) = Some row"
  shows "restore_item s name b = (ExistsActive, snd (get_user_id s name True))"
  using assms get_user_id_items [of s name True]
  by (cases "get_user_id s name True") (simp add: restore_item_def request_user_def)

lemma restore_item_restores:
  assumes "List.find (\<lambda>r. key_match (request_user s name) b r \<and> \<not> archived r) (items s) = None"
  shows "restore_item s name b =
     (Restored, (snd (get_user_id s name True))\<lparr>items :=
        sql_update (key_match (request_user s name) b)
          (\<lambda>r. r\<lparr>archived := False, purchased := False\<rparr>) (items s)\<rparr>)"
  using assms get_user_id_items [of s name True]
  by (cases "get_user_id s name True") (simp add: restore_item_def request_user_def)

text \<open>
  Claim C6. For every state, user name and request url: if an active row (\<^verbatim>\<open>archived\<close>
  false) has the key of the request, \<^verbatim>\<open>restore_item\<close> answers \<^verbatim>\<open>exists_active\<close> and
  leaves every item row as it was, whatever archived rows share the key (and the whole
  state as it was when the user exists); otherwise it answers \<^verbatim>\<open>restored\<close>, and every
  row with the key becomes the same row with \<^verbatim>\<open>archived\<close> and \<^verbatim>\<open>purchased\<close> false
  while every other row stays as it was.
\<close>

theorem restore_item_rows:
  "((\<exists>r \<in> set (items s). key_match (request_user s name) b r \<and> \<not> archived r) \<longrightarrow>
      fst (restore_item s name b) = ExistsActive \<and>
      items (snd (restore_item s name b)) = items s \<and>
      (has_user s name \<longrightarrow> snd (restore_item s name b) = s)) \<and>
   (\<not> (\<exists>r \<in> set (items s). key_match (request_user s name) b r \<and> \<not> archived r) \<longrightarrow>
      fst (restore_item s name b) = Restored \<and>
      length (items (snd (restore_item s name b))) = length (items s) \<and>
      (\<forall>i < length (items s).
         items (snd (restore_item s name b)) ! i =
           (if key_match (request_user s name) b (items s ! i)
            then (items s ! i)\<lparr>archived := False, purchased := False\<rparr> else items s ! i)))"
proof (cases "List.find (\<lambda>r. key_match (request_user s name) b r \<and> \<not> archived r) (items s)")
  case None
  then have no: "\<not> (\<exists>r \<in> set (items s). key_match (request_user s name) b r \<and> \<not> archived r)"
    by (simp add: find_None_iff)
  show ?thesis
    using no by (simp add: restore_item_restores [OF None] sql_update_length sql_update_nth)
next
  case (Some row)
  then have yes: "\<exists>r \<in> set (items s). key_match (request_user s name) b r \<and> \<not> archived r"
    by (auto simp add: find_Some_iff)
  show ?thesis
    using yes by (simp add: restore_item_refuses [OF Some] get_user_id_items get_user_id_existing)
qed

text \<open>
  An archived and an active row of \<^verbatim>\<open>ann\<close> for one url: the restore is refused and
  both rows stay. Two archived rows for one url: both are restored.
\<close>

theorem restore_item_rows_witness:
  "restore_item (demo_state [demo_row 1 ''http://a'' True True, demo_row 2 ''http://a'' False False])
      ''ann'' (Some ''http://a'') =
     (ExistsActive, demo_state [demo_row 1 ''http://a'' True True, demo_row 2 ''http://a'' False False]) \<and>
   restore_item (demo_state [demo_row 1 ''http://a'' True True, demo_row 2 ''http://a'' True True,
        demo_row 3 ''http://b'' True True])
      ''ann'' (Some ''http://a'') =
     (Restored, demo_state [demo_row 1 ''http://a'' False False, demo_row 2 ''http://a'' False False,
        demo_row 3 ''http://b'' True True])"
  using restore_item_rows [of "demo_state [demo_row 1 ''http://a'' True True,
          demo_row 2 ''http://a'' False False]" "''ann''" "Some ''http://a''"]
    restore_item_rows [of "demo_state [demo_row 1 ''http://a'' True True,
          demo_row 2 ''http://a'' True True, demo_row 3 ''http://b'' True True]" "''ann''" "Some ''http://a''"]
  by (simp add: restore_item_def get_user_id_def demo_state_def demo_users_def demo_row_def
        sql_update_def)

section \<open>add\_item\<close>

lemma find_append_new:
  "List.find P xs = None \<Longrightarrow> List.find P (xs @ [x]) = (if P x then Some x else None)"
  by (induction xs) (auto split: if_splits)

lemma find_map_same:
  "(\<And>x. P (f x) = P x) \<Longrightarrow> List.find P (map f xs) = map_option f (List.find P xs)"
  by (induction xs) auto


lemma request_user_Some: "\<exists>u. request_user s name = Some u"
  by (auto simp add: request_user_def get_user_id_def Let_def split: option.splits)

lemma get_user_id_split:
  "get_user_id s name True = (request_user s name, snd (get_user_id s name True))"
  by (simp add: request_user_def)

text \<open>A later lookup of the same name, in a state with the same users, finds the same id.\<close>

lemma get_user_id_later:
  assumes "users s' = users (snd (get_user_id s name True))"
  shows "get_user_id s' name c = (request_user s name, s')"
  using assms
  by (auto simp add: get_user_id_def request_user_def Let_def find_append_new split: option.splits)

lemma add_item_unfold:
  assumes "l \<noteq> []"
  shows "add_item e s name (Some l) =
     (case List.find (key_match (request_user s name) (Some l)) (items s) of
        Some row \<Rightarrow>
          if archived row
          then (let s2 = (snd (get_user_id s name True))\<lparr>items :=
                   sql_update (\<lambda>r. item_id r = item_id row) (restore_row e) (items s)\<rparr>
                in case List.find (\<lambda>r. item_id r = item_id row) (items s2) of
                     Some r \<Rightarrow> (AddRestored (title r), s2)
                   | None \<Rightarrow> (ServerError TypeError, s2))
          else (Exists, snd (get_user_id s name True))
      | None \<Rightarrow> add_new e (snd (get_user_id s name True)) (request_user s name) l)"
  using assms get_user_id_items [of s name True]
  by (cases "get_user_id s name True")
    (simp add: add_item_def request_user_def Let_def split: option.splits)

lemma restore_row_id: "item_id (restore_row e r) = item_id r"
  by (simp add: restore_row_def)

lemma restore_row_title: "title (restore_row e r) = title r"
  by (simp add: restore_row_def)

lemma restore_row_key: "key_match u b (restore_row e r) = key_match u b r"
  by (cases u; cases b) (simp_all add: restore_row_def)

lemma restore_row_active: "\<not> archived (restore_row e r)"
  by (simp add: restore_row_def)

lemma find_by_id_distinct:
  "distinct (map item_id rows) \<Longrightarrow> row \<in> set rows \<Longrightarrow>
   List.find (\<lambda>r. item_id r = item_id row) rows = Some row"
  by (induction rows) (auto simp add: rev_image_eqI)

lemma find_in_set: "List.find P xs = Some x \<Longrightarrow> x \<in> set xs \<and> P x"
  by (auto simp add: find_Some_iff)

lemma find_after_update:
  assumes "distinct (map item_id rows)" "row \<in> set rows"
  shows "List.find (\<lambda>r. item_id r = item_id row)
           (sql_update (\<lambda>r. item_id r = item_id row) (restore_row e) rows) = Some (restore_row e row)"
proof -
  have "sql_update (\<lambda>r. item_id r = item_id row) (restore_row e) rows =
        map (\<lambda>r. if item_id r = item_id row then restore_row e r else r) rows"
    by (simp add: sql_update_def)
  moreover have "List.find (\<lambda>r. item_id r = item_id row)
      (map (\<lambda>r. if item_id r = item_id row then restore_row e r else r) rows) =
      map_option (\<lambda>r. if item_id r = item_id row then restore_row e r else r)
        (List.find (\<lambda>r. item_id r = item_id row) rows)"
    by (rule find_map_same) (simp add: restore_row_id)
  ultimately show ?thesis
    using find_by_id_distinct [OF assms] by simp
qed

text \<open>In a table kept in id order, the row a scan finds first has the least id.\<close>

lemma find_least_id:
  assumes "List.find P rows = Some row" "sorted (map item_id rows)" "r \<in> set rows" "P r"
  shows "item_id row \<le> item_id r"
proof -
  from assms(1) obtain i where i: "i < length rows" "rows ! i = row" "\<forall>j < i. \<not> P (rows ! j)"
    by (auto simp add: find_Some_iff)
  from assms(3) obtain j where j: "j < length rows" "rows ! j = r"
    by (auto simp add: in_set_conv_nth)
  with i(3) assms(4) have "i \<le> j" by (meson not_le_imp_less)
  with assms(2) j(1) have "map item_id rows ! i \<le> map item_id rows ! j"
    by (simp add: sorted_iff_nth_mono)
  with i j show ?thesis by simp
qed

lemma distinct_id_eq:
  "distinct (map item_id rows) \<Longrightarrow> row \<in> set rows \<Longrightarrow> i < length rows \<Longrightarrow>
   (item_id (rows ! i) = item_id row) = (rows ! i = row)"
  by (metis distinct_map inj_on_def nth_mem)

text \<open>
  Claim C1, as the code has it. \<^verbatim>\<open>add_item\<close> looks at one row: the first row with the
  key of the request that the scan of the table meets, which in a table kept in id order
  is the row with the least id among them. For every state whose row ids are distinct
  and every non-empty url: if that first row is archived, the request answers
  \<^verbatim>\<open>restored\<close> with the stored title of the row, that row becomes the same row with
  \<^verbatim>\<open>archived\<close> and \<^verbatim>\<open>purchased\<close> false and \<^verbatim>\<open>added_date\<close> today, every other
  row stays as it was, and no page is fetched, whatever rows with the same key come
  after it; if that first row is active, the request answers \<^verbatim>\<open>exists\<close>, no row
  changes and no page is fetched, even when an archived row with the same key comes
  after it.
\<close>

theorem add_item_first_match:
  assumes url: "l \<noteq> []"
    and pk: "distinct (map item_id (items s))"
    and first: "List.find (key_match (request_user s name) (Some l)) (items s) = Some row"
  shows "(archived row \<longrightarrow>
            fst (add_item e s name (Some l)) = AddRestored (title row) \<and>
            length (items (snd (add_item e s name (Some l)))) = length (items s) \<and>
            (\<forall>i < length (items s).
               items (snd (add_item e s name (Some l))) ! i =
                 (if items s ! i = row
                  then row\<lparr>archived := False, purchased := False, added_date := Some (today e)\<rparr>
                  else items s ! i)) \<and>
            fetched (snd (add_item e s name (Some l))) = fetched s) \<and>
         (\<not> archived row \<longrightarrow>
            fst (add_item e s name (Some l)) = Exists \<and>
            items (snd (add_item e s name (Some l))) = items s \<and>
            fetched (snd (add_item e s name (Some l))) = fetched s) \<and>
         (sorted (map item_id (items s)) \<longrightarrow>
            (\<forall>r \<in> set (items s). key_match (request_user s name) (Some l) r \<longrightarrow>
               item_id row \<le> item_id r))"
proof (cases "archived row")
  case False
  then show ?thesis
    using find_least_id [OF first]
    by (simp add: add_item_unfold [OF url] first get_user_id_items get_user_id_fetched)
next
  case True
  have mem: "row \<in> set (items s)"
    using first by (simp add: find_in_set)
  let ?s2 = "(snd (get_user_id s name True))\<lparr>items :=
      sql_update (\<lambda>r. item_id r = item_id row) (restore_row e) (items s)\<rparr>"
  have res: "add_item e s name (Some l) = (AddRestored (title row), ?s2)"
    using True by (simp add: add_item_unfold [OF url] first find_after_update [OF pk mem]
        restore_row_title)
  have nth: "items ?s2 ! i =
      (if items s ! i = row
       then row\<lparr>archived := False, purchased := False, added_date := Some (today e)\<rparr>
       else items s ! i)" if "i < length (items s)" for i
    using that distinct_id_eq [OF pk mem that]
    by (simp add: sql_update_nth) (simp add: restore_row_def)
  show ?thesis
    using True nth find_least_id [OF first]
    by (simp add: res sql_update_length get_user_id_fetched)
qed

text \<open>
  An archived row of \<^verbatim>\<open>ann\<close> for the url, followed by an active row for the same url:
  the archived row is restored with its title.
\<close>

theorem add_item_first_match_witness:
  "add_item demo_env (demo_state [demo_row 1 ''http://a'' True True, demo_row 2 ''http://a'' False False])
      ''ann'' (Some ''http://a'') =
     (AddRestored (Some ''Lamp''),
      demo_state [(demo_row 1 ''http://a'' False False)\<lparr>added_date := Some ''2024-06-01''\<rparr>,
                  demo_row 2 ''http://a'' False False])"
  using add_item_first_match [of "''http://a''"
      "demo_state [demo_row 1 ''http://a'' True True, demo_row 2 ''http://a'' False False]"
      "''ann''" "demo_row 1 ''http://a'' True True" demo_env]
  by (simp add: add_item_def get_user_id_def sql_update_def restore_row_def
      demo_env_def demo_state_def demo_users_def demo_row_def)

text \<open>
  Claim C1 as stated fails: with an active row for the url followed by an archived row
  for the same url, a matching archived row exists, yet the request answers
  \<^verbatim>\<open>exists\<close> and the archived row stays archived.
\<close>

theorem add_item_first_match_counterexample:
  "key_match (Some 1) (Some ''http://a'') (demo_row 2 ''http://a'' True True) \<and>
   archived (demo_row 2 ''http://a'' True True) \<and>
   add_item demo_env (demo_state [demo_row 1 ''http://a'' False False, demo_row 2 ''http://a'' True True])
      ''ann'' (Some ''http://a'') =
     (Exists, demo_state [demo_row 1 ''http://a'' False False, demo_row 2 ''http://a'' True True])"
  by (simp add: add_item_def get_user_id_def demo_state_def demo_users_def demo_row_def)

lemma add_item_known_user:
  assumes "users s' = users (snd (get_user_id s name True))" "l \<noteq> []"
    and "List.find (key_match (request_user s name) (Some l)) (items s') = Some row"
    and "\<not> archived row"
  shows "add_item e' s' name (Some l) = (Exists, s')"
proof -
  have g: "get_user_id s' name True = (request_user s name, s')"
    by (rule get_user_id_later [OF assms(1)])
  then have "request_user s' name = request_user s name" "snd (get_user_id s' name True) = s'"
    by (simp_all add: request_user_def)
  then show ?thesis
    using assms(3,4) by (simp add: add_item_unfold [OF assms(2)])
qed

lemma add_new_result:
  assumes "add_new e s u l = (Added t, s')"
  shows "users s' = users s \<and>
         (\<exists>row. items s' = items s @ [row] \<and> user_id row = u \<and> url row = l \<and> \<not> archived row)"
  using assms
  by (auto simp add: add_new_def insert_item_def Let_def split: sum.splits prod.splits)

lemma add_new_not_restored: "fst (add_new e s u l) \<noteq> AddRestored t \<and> fst (add_new e s u l) \<noteq> Exists"
  by (auto simp add: add_new_def insert_item_def Let_def split: sum.splits prod.splits)

text \<open>
  Claim C5. For every state, if a first \<^verbatim>\<open>add_item\<close> for a user and a url succeeded
  (it answered \<^verbatim>\<open>added\<close>, \<^verbatim>\<open>restored\<close> or \<^verbatim>\<open>exists\<close>, so that an active row with
  the key is the first one in the table), a second \<^verbatim>\<open>add_item\<close> for the same user and
  url, on whatever date and with whatever the network would answer, answers \<^verbatim>\<open>exists\<close>
  and leaves the whole state as it was: no new row, no changed row, no page fetched.
\<close>

theorem add_item_twice:
  assumes first: "add_item e s name b = (r, s1)"
    and ok: "r = Added t \<or> r = AddRestored t \<or> r = Exists"
  shows "add_item e' s1 name b = (Exists, s1)"
proof -
  obtain l where b: "b = Some l" and url: "l \<noteq> []"
    using first ok by (cases b) (auto simp add: add_item_def split: if_splits)
  let ?sa = "snd (get_user_id s name True)"
  let ?u = "request_user s name"
  note unfolded = first [unfolded b add_item_unfold [OF url]]
  show ?thesis
  proof (cases "List.find (key_match ?u (Some l)) (items s)")
    case None
    with unfolded have new: "add_new e ?sa ?u l = (r, s1)" by simp
    with ok add_new_not_restored [of e ?sa ?u l] have r: "r = Added t"
      by (metis fst_conv)
    from add_new_result [OF new [unfolded r]] obtain row where
      u: "users s1 = users ?sa" and rows: "items s1 = items s @ [row]"
      and row: "user_id row = ?u" "url row = l" "\<not> archived row"
      by (auto simp add: get_user_id_items)
    obtain u0 where u0: "?u = Some u0" using request_user_Some by blast
    have "List.find (key_match ?u (Some l)) (items s1) = Some row"
      using None row by (simp add: rows find_append_new u0)
    from add_item_known_user [OF u url this row(3)] show ?thesis by (simp add: b)
  next
    case (Some row)
    show ?thesis
    proof (cases "archived row")
      case False
      with unfolded Some have s1: "s1 = ?sa" by simp
      have "List.find (key_match ?u (Some l)) (items s1) = Some row"
        by (simp add: s1 get_user_id_items Some)
      from add_item_known_user [OF _ url this False] show ?thesis by (simp add: b s1)
    next
      case True
      let ?f = "\<lambda>r. if item_id r = item_id row then restore_row e r else r"
      let ?s2 = "?sa\<lparr>items := sql_update (\<lambda>r. item_id r = item_id row) (restore_row e) (items s)\<rparr>"
      from unfolded Some True have s1: "s1 = ?s2"
        by (auto simp add: Let_def split: option.splits)
      have "List.find (key_match ?u (Some l)) (map ?f (items s)) =
            map_option ?f (List.find (key_match ?u (Some l)) (items s))"
        by (rule find_map_same) (simp add: restore_row_key)
      then have found: "List.find (key_match ?u (Some l)) (items s1) = Some (restore_row e row)"
        by (simp add: s1 sql_update_def Some)
      have "users s1 = users ?sa" by (simp add: s1)
      from add_item_known_user [OF this url found restore_row_active] show ?thesis
        by (simp add: b)
    qed
  qed
qed

text \<open>A first add into an empty table answers \<^verbatim>\<open>added\<close>; the second one \<^verbatim>\<open>exists\<close>.\<close>

theorem add_item_twice_witness:
  "fst (add_item demo_env (demo_state []) ''ann'' (Some ''http://a'')) = Added None \<and>
   add_item demo_env (snd (add_item demo_env (demo_state []) ''ann'' (Some ''http://a'')))
      ''ann'' (Some ''http://a'') =
     (Exists, snd (add_item demo_env (demo_state []) ''ann'' (Some ''http://a'')))"
proof -
  have res: "fst (add_item demo_env (demo_state []) ''ann'' (Some ''http://a'')) = Added None"
    by (simp add: add_item_def add_new_def fetch_metadata_def insert_item_def get_user_id_def
      demo_env_def demo_state_def demo_users_def)
  then have first: "add_item demo_env (demo_state []) ''ann'' (Some ''http://a'') =
      (Added None, snd (add_item demo_env (demo_state []) ''ann'' (Some ''http://a'')))"
    by (metis prod.collapse)
  from add_item_twice [OF first, of None demo_env] res show ?thesis by blast
qed

text \<open>
  Claim C7, as the code has it. For every \<^verbatim>\<open>add_item\<close> with a non-empty url where no
  row has the key of the request, the request for the page fails and \<^verbatim>\<open>urlparse\<close>
  accepts the url: the request answers \<^verbatim>\<open>added\<close> with no title, and the table gains
  one row at its end, with the next row id, the user, the url, title, description, image
  and price absent, the source \<^verbatim>\<open>urlparse(url).netloc\<close>, today's date, and
  \<^verbatim>\<open>purchased\<close> and \<^verbatim>\<open>archived\<close> false; one page request is logged.
\<close>

theorem add_item_fetch_failure:
  assumes url: "l \<noteq> []"
    and nomatch: "List.find (key_match (request_user s name) (Some l)) (items s) = None"
    and failure: "fetch e l = None"
    and host: "netloc e l = Inr h"
  shows "fst (add_item e s name (Some l)) = Added None \<and>
         items (snd (add_item e s name (Some l))) = items s @
           [\<lparr>item_id = next_rowid (item_seq s) (map item_id (items s)),
             user_id = request_user s name, url = l,
             title = None, description = None, image_url = None, price = None, source = Some h,
             added_date = Some (today e), purchased = False, archived = False\<rparr>] \<and>
         fetched (snd (add_item e s name (Some l))) = fetched s @ [l]"
  by (simp add: add_item_unfold [OF url] nomatch add_new_def fetch_metadata_def failure host
      insert_item_def Let_def get_user_id_items get_user_id_fetched get_user_id_item_seq)

text \<open>A new url for \<^verbatim>\<open>ann\<close> while every page request fails.\<close>

theorem add_item_fetch_failure_witness:
  "add_item demo_env (demo_state [demo_row 1 ''http://a'' False False]) ''ann'' (Some ''http://b/lamp'') =
     (Added None,
      \<lparr>users = demo_users,
       items = [demo_row 1 ''http://a'' False False,
         \<lparr>item_id = 10, user_id = Some 1, url = ''http://b/lamp'',
           title = None, description = None, image_url = None, price = None, source = Some ''b'',
           added_date = Some ''2024-06-01'', purchased = False, archived = False\<rparr>],
       user_seq = 1, item_seq = 10, fetched = [''http://b/lamp'']\<rparr>)"
  using add_item_fetch_failure [of "''http://b/lamp''" "demo_state [demo_row 1 ''http://a'' False False]"
      "''ann''" demo_env "''b''"]
  by (simp add: add_item_def add_new_def fetch_metadata_def insert_item_def get_user_id_def
      demo_env_def demo_state_def demo_users_def demo_row_def next_rowid_def)

text \<open>
  Claim C7 as stated fails where \<^verbatim>\<open>urlparse\<close> rejects the url: for \<^verbatim>\<open>http://[\<close> no
  row has the key and the page request fails, yet the request does not answer
  \<^verbatim>\<open>added\<close>: \<^verbatim>\<open>ValueError\<close> ends it and no row is created.
\<close>

theorem add_item_fetch_failure_counterexample:
  "fetch demo_env ''http://['' = None \<and>
   add_item demo_env (demo_state []) ''ann'' (Some ''http://['') =
     (ServerError ValueError, (demo_state [])\<lparr>fetched := [''http://['']\<rparr>)"
  by (simp add: add_item_def add_new_def fetch_metadata_def get_user_id_def
      demo_env_def demo_state_def demo_users_def)

section \<open>Creation of the user\<close>









section \<open>The extractor\<close>

lemmas soup_defs = scrape_price_def meta_price_def price_tag_def first_found_def soup_find_def
  soup_find_all_def ld_scripts_def all_nodes_def tag_get_def load_script_def
  meta_def ld_script_def

lemmas text_defs = demo_loads_def graph_block_text_def graph_block_json_def offer_block_text_def
  offer_block_json_def empty_offers_text_def empty_offers_json_def broken_block_text_def
  graph_object_text_def graph_object_json_def

text \<open>
  Claim C2, as the code has it. Price tier 1 looks at one tag: the first \<^verbatim>\<open>meta\<close> tag
  in document order with property \<^verbatim>\<open>product:price:amount\<close>; when there is none, the
  first with property \<^verbatim>\<open>og:price:amount\<close>; when there is none either, the first
  with \<^verbatim>\<open>itemprop\<close> \<^verbatim>\<open>price\<close>. When that tag carries a non-empty
  \<^verbatim>\<open>content\<close>, this content is the price, whatever the JSON-LD blocks hold. When it
  carries no \<^verbatim>\<open>content\<close> or an empty one, or when no such tag exists, tier 1 gives
  nothing and the price is the one of the JSON-LD scan: no later tag is looked at.
\<close>

theorem price_tier1:
  "(price_tag doc = Some t \<and> attrs t ''content'' = Some c \<and> c \<noteq> [] \<longrightarrow>
      scrape_price parse doc = JStr c) \<and>
   (price_tag doc = Some t \<and> (attrs t ''content'' = None \<or> attrs t ''content'' = Some []) \<longrightarrow>
      scrape_price parse doc = scan_scripts parse (ld_scripts doc) JNull) \<and>
   (price_tag doc = None \<longrightarrow>
      scrape_price parse doc = scan_scripts parse (ld_scripts doc) JNull) \<and>
   price_tag doc =
     (case soup_find doc ''meta'' (Some (''property'', ''product:price:amount'')) of
        Some a \<Rightarrow> Some a
      | None \<Rightarrow>
          (case soup_find doc ''meta'' (Some (''property'', ''og:price:amount'')) of
             Some b \<Rightarrow> Some b
           | None \<Rightarrow> soup_find doc ''meta'' (Some (''itemprop'', ''price'')))) \<and>
   (soup_find doc n f = Some t \<longrightarrow>
      (\<exists>i < length (all_nodes doc). all_nodes doc ! i = t \<and> tag_matches n f t \<and>
         (\<forall>j < i. \<not> tag_matches n f (all_nodes doc ! j)))) \<and>
   (soup_find doc n f = None \<longrightarrow> (\<forall>x \<in> set (all_nodes doc). \<not> tag_matches n f x))"
proof -
  have 1: "price_tag doc = Some t \<and> attrs t ''content'' = Some c \<and> c \<noteq> [] \<longrightarrow>
      scrape_price parse doc = JStr c"
    by (simp add: scrape_price_def meta_price_def tag_get_def)
  have 2: "price_tag doc = Some t \<and> (attrs t ''content'' = None \<or> attrs t ''content'' = Some []) \<longrightarrow>
      scrape_price parse doc = scan_scripts parse (ld_scripts doc) JNull"
    by (auto simp add: scrape_price_def meta_price_def tag_get_def)
  have 3: "price_tag doc = None \<longrightarrow>
      scrape_price parse doc = scan_scripts parse (ld_scripts doc) JNull"
    by (simp add: scrape_price_def meta_price_def)
  have 4: "price_tag doc =
     (case soup_find doc ''meta'' (Some (''property'', ''product:price:amount'')) of
        Some a \<Rightarrow> Some a
      | None \<Rightarrow>
          (case soup_find doc ''meta'' (Some (''property'', ''og:price:amount'')) of
             Some b \<Rightarrow> Some b
           | None \<Rightarrow> soup_find doc ''meta'' (Some (''itemprop'', ''price''))))"
    by (simp add: price_tag_def first_found_def)
  have 5: "soup_find doc n f = Some t \<longrightarrow>
      (\<exists>i < length (all_nodes doc). all_nodes doc ! i = t \<and> tag_matches n f t \<and>
         (\<forall>j < i. \<not> tag_matches n f (all_nodes doc ! j)))"
    by (auto simp add: soup_find_def find_Some_iff)
  have 6: "soup_find doc n f = None \<longrightarrow> (\<forall>x \<in> set (all_nodes doc). \<not> tag_matches n f x)"
    by (simp add: soup_find_def find_None_iff)
  from 1 2 3 4 5 6 show ?thesis by blast
qed

text \<open>
  The document of the specification, with the tag price 19.99 and the JSON-LD price
  29.99: the tag wins. With an empty \<^verbatim>\<open>product:price:amount\<close> tag before an
  \<^verbatim>\<open>og:price:amount\<close> tag of 9.99, the price is the JSON-LD one.
\<close>

theorem price_tier1_witness:
  "scrape_price demo_loads [meta ''property'' ''product:price:amount'' (Some ''19.99''),
      ld_script offer_block_text] = JStr ''19.99'' \<and>
   scrape_price demo_loads [meta ''property'' ''product:price:amount'' (Some []),
      meta ''property'' ''og:price:amount'' (Some ''9.99''), ld_script offer_block_text] = JStr ''29.99''"
proof -
  let ?m1 = "meta ''property'' ''product:price:amount'' (Some ''19.99'')"
  let ?d1 = "[?m1, ld_script offer_block_text]"
  let ?m2 = "meta ''property'' ''product:price:amount'' (Some [])"
  let ?d2 = "[?m2, meta ''property'' ''og:price:amount'' (Some ''9.99''), ld_script offer_block_text]"
  have h1: "price_tag ?d1 = Some ?m1 \<and> attrs ?m1 ''content'' = Some ''19.99'' \<and> ''19.99'' \<noteq> []"
    by (simp add: price_tag_def first_found_def soup_find_def all_nodes_def meta_def ld_script_def)
  have h2: "price_tag ?d2 = Some ?m2 \<and> (attrs ?m2 ''content'' = None \<or> attrs ?m2 ''content'' = Some [])"
    by (simp add: price_tag_def first_found_def soup_find_def all_nodes_def meta_def ld_script_def)
  have scan: "scan_scripts demo_loads (ld_scripts ?d2) JNull = JStr ''29.99''"
    by (simp add: ld_scripts_def soup_find_all_def all_nodes_def meta_def ld_script_def
        load_script_def text_defs)
  from price_tier1 [where doc = ?d1 and t = ?m1 and c = "''19.99''" and parse = demo_loads
      and n = "''meta''" and f = None] h1
  have r1: "scrape_price demo_loads ?d1 = JStr ''19.99''" by blast
  from price_tier1 [where doc = ?d2 and t = ?m2 and c = "[]" and parse = demo_loads
      and n = "''meta''" and f = None] h2
  have r2: "scrape_price demo_loads ?d2 = scan_scripts demo_loads (ld_scripts ?d2) JNull" by blast
  from r1 r2 scan show ?thesis by simp
qed

text \<open>
  Claim C2 as stated fails: an empty \<^verbatim>\<open>product:price:amount\<close> tag followed by an
  \<^verbatim>\<open>og:price:amount\<close> tag with the content 9.99 does not resolve to 9.99; without
  JSON-LD blocks the price stays \<^verbatim>\<open>None\<close>.
\<close>

theorem price_tier1_counterexample:
  "tag_get (meta ''property'' ''og:price:amount'' (Some ''9.99'')) ''content'' = Some ''9.99'' \<and>
   scrape_price demo_loads [meta ''property'' ''product:price:amount'' (Some []),
      meta ''property'' ''og:price:amount'' (Some ''9.99'')] = JNull"
  by (simp add: soup_defs)

text \<open>
  Claim C3 does not hold of the code. \<^verbatim>\<open>og\<close> reads \<^verbatim>\<open>tag["content"]\<close>, so an
  \<^verbatim>\<open>og:title\<close> tag without \<^verbatim>\<open>content\<close> raises \<^verbatim>\<open>KeyError\<close>; an empty
  \<^verbatim>\<open>title\<close> element has the string \<^verbatim>\<open>None\<close>, and \<^verbatim>\<open>.strip()\<close> on it raises
  \<^verbatim>\<open>AttributeError\<close>. Nothing catches either, and the request that fetched the
  document ends with the exception and without a new row.
\<close>

theorem extract_metadata_raises:
  "extract_metadata parse [meta ''property'' ''og:title'' None] = Inl KeyError \<and>
   extract_metadata parse [Tag ''title'' Map.empty []] = Inl AttributeError \<and>
   add_item (demo_env\<lparr>fetch := \<lambda>l. Some [meta ''property'' ''og:title'' None]\<rparr>) (demo_state [])
       ''ann'' (Some ''http://a'') =
     (ServerError KeyError, (demo_state [])\<lparr>fetched := [''http://a'']\<rparr>)"
  by (simp add: extract_metadata_def extract_title_def og_def title_fallback_def tag_getitem_def
      soup_find_def all_nodes_def meta_def add_item_def add_new_def fetch_metadata_def
      get_user_id_def demo_env_def demo_state_def demo_users_def)

lemma get_price_priced:
  "(case spec_offer_price x of
      Price v \<Rightarrow> get_price x = Inr v \<and> truthy v
    | NoPrice \<Rightarrow> (\<exists>p'. get_price x = Inr p' \<and> \<not> truthy p')
    | Raises \<Rightarrow> (\<exists>e. get_price x = Inl e))"
  by (cases x) (auto split: option.splits)

lemma offers_price_finding:
  assumes "\<not> truthy p"
  shows "(case spec_offers_price offers of
      Price v \<Rightarrow> offers_price offers p = Inr v \<and> truthy v
    | NoPrice \<Rightarrow> (\<exists>p'. offers_price offers p = Inr p' \<and> \<not> truthy p')
    | Raises \<Rightarrow> (\<exists>e. offers_price offers p = Inl e))"
proof (cases offers)
  case (JArr xs)
  then show ?thesis
    using get_price_priced [of "hd xs"] by (cases xs) (auto split: finding.splits)
next
  case (JObj kvs)
  then show ?thesis
    using get_price_priced [of "JObj kvs"] by (auto split: finding.splits option.splits if_splits)
qed (use assms in simp_all)

text \<open>One pass of the loop over the candidates, started with an empty price.\<close>

lemma scan_objects_step:
  assumes "\<not> truthy p"
  shows "(case spec_candidate_price c of
      Price v \<Rightarrow> scan_objects (c # cs) p = (None, v) \<and> truthy v
    | NoPrice \<Rightarrow> (\<exists>p'. \<not> truthy p' \<and> scan_objects (c # cs) p = scan_objects cs p')
    | Raises \<Rightarrow> (\<exists>e. scan_objects (c # cs) p = (Some e, p)))"
proof (cases c)
  case (JObj kvs)
  show ?thesis
  proof (cases "map_of kvs ''offers''")
    case None
    with JObj assms show ?thesis by auto
  next
    case (Some offers)
    with JObj show ?thesis
      using offers_price_finding [OF assms, of offers]
      by (auto split: finding.splits)
  qed
next
  case (JStr t)
  with assms show ?thesis by (cases "str_contains ''offers'' t") auto
next
  case (JArr xs)
  with assms show ?thesis by (cases "JStr ''offers'' \<in> set xs") auto
qed simp_all

lemma scan_objects_first_price:
  assumes "\<not> truthy p"
  shows "(case spec_first_price cs of
      Some v \<Rightarrow> scan_objects cs p = (None, v) \<and> truthy v
    | None \<Rightarrow> \<not> truthy (snd (scan_objects cs p)))"
  using assms
proof (induction cs arbitrary: p)
  case Nil
  then show ?case by simp
next
  case (Cons c cs)
  show ?case
  proof (cases "spec_candidate_price c")
    case (Price v)
    with scan_objects_step [OF Cons.prems, of c cs] show ?thesis by simp
  next
    case NoPrice
    with scan_objects_step [OF Cons.prems, of c cs]
    obtain p' where p': "\<not> truthy p'" "scan_objects (c # cs) p = scan_objects cs p'" by auto
    with NoPrice Cons.IH [OF p'(1)] show ?thesis by (auto split: option.splits)
  next
    case Raises
    with scan_objects_step [OF Cons.prems, of c cs] Cons.prems show ?thesis by auto
  qed
qed

text \<open>Strings among the candidates (the keys of a dict, the characters of a str) give no price.\<close>

lemma scan_objects_strings:
  assumes "\<not> truthy p" "\<forall>c \<in> set cs. \<exists>t. c = JStr t"
  shows "snd (scan_objects cs p) = p"
  using assms
proof (induction cs)
  case Nil
  then show ?case by simp
next
  case (Cons c cs)
  then obtain t where "c = JStr t" by auto
  with Cons show ?case by (cases "str_contains ''offers'' t") simp_all
qed

lemma scan_block_first_price:
  assumes "\<not> truthy p"
  shows "(case spec_first_price (spec_candidates data) of
      Some v \<Rightarrow> scan_block data p = (None, v) \<and> truthy v
    | None \<Rightarrow> \<not> truthy (snd (scan_block data p)))"
proof (cases data)
  case (JObj kvs)
  show ?thesis
  proof (cases "map_of kvs ''@graph''")
    case None
    with JObj scan_objects_first_price [OF assms, of "[JObj kvs]"] show ?thesis
      by (auto split: option.splits finding.splits)
  next
    case (Some g)
    show ?thesis
    proof (cases g)
      case (JArr xs)
      with JObj Some scan_objects_first_price [OF assms, of xs] show ?thesis
        by (auto split: option.splits)
    next
      case (JObj kvs')
      with \<open>data = JObj kvs\<close> Some assms
        scan_objects_strings [OF assms, of "map (\<lambda>kv. JStr (fst kv)) kvs'"]
      show ?thesis by auto
    next
      case (JStr t)
      with JObj Some assms scan_objects_strings [OF assms, of "map (\<lambda>c. JStr [c]) t"]
      show ?thesis by auto
    qed (use JObj Some assms in simp_all)
  qed
qed (use assms in simp_all)

lemma scan_scripts_jsonld_price:
  assumes "\<not> truthy p"
  shows "(case spec_jsonld_price parse scripts of
      Some v \<Rightarrow> scan_scripts parse scripts p = v \<and> truthy v
    | None \<Rightarrow> \<not> truthy (scan_scripts parse scripts p))"
  using assms
proof (induction scripts arbitrary: p)
  case Nil
  then show ?case by simp
next
  case (Cons b bs)
  show ?case
  proof (cases "load_script parse b")
    case None
    with Cons.IH [OF Cons.prems] show ?thesis
      by (auto simp add: spec_block_price_def split: option.splits)
  next
    case (Some data)
    obtain ex p' where sb: "scan_block data p = (ex, p')" by (cases "scan_block data p")
    show ?thesis
    proof (cases "spec_first_price (spec_candidates data)")
      case None
      with scan_block_first_price [OF Cons.prems, of data] sb have p': "\<not> truthy p'" by simp
      from Cons.IH [OF p'] None Some sb p' show ?thesis
        by (cases ex) (auto simp add: spec_block_price_def split: option.splits)
    next
      case (Some v)
      with scan_block_first_price [OF Cons.prems, of data] sb
      have "ex = None" "p' = v" "truthy v" by simp_all
      with Some \<open>load_script parse b = Some data\<close> sb show ?thesis
        by (simp add: spec_block_price_def)
    qed
  qed
qed

text \<open>
  Claim C4, as the code has it. For every document whose tier 1 gives no price, the
  price after the JSON-LD scan is the one \<open>spec_jsonld_price\<close> describes: the blocks are
  taken in document order; a block that does not parse is passed over; the candidates
  of a parsed object are the elements of its \<^verbatim>\<open>@graph\<close> array, or the object itself
  when it has no \<^verbatim>\<open>@graph\<close>; a candidate with \<^verbatim>\<open>offers\<close> gives the price of the
  first element of a list, or of the single object; the first non-empty price ends the
  scan and is the result. A block in which a candidate raises before a price is found
  (an empty \<^verbatim>\<open>offers\<close> list, a first offer or a candidate that is not an object) is
  passed over as a whole, and so is a block whose \<^verbatim>\<open>@graph\<close> is not an array. When
  no price is found the result is empty (\<^verbatim>\<open>None\<close>, or a blank or zero price read on
  the way). The block \<^verbatim>\<open>{"@graph":[{"offers":{"price":"42.00"}}]}\<close> gives 42.00.
\<close>

theorem jsonld_scan:
  "(\<not> truthy (meta_price doc) \<longrightarrow>
      (case spec_jsonld_price parse (ld_scripts doc) of
         Some v \<Rightarrow> scrape_price parse doc = v \<and> truthy v
       | None \<Rightarrow> \<not> truthy (scrape_price parse doc))) \<and>
   (parse graph_block_text = Some graph_block_json \<longrightarrow>
      scrape_price parse [ld_script graph_block_text] = JStr ''42.00'')"
proof -
  have general: "(case spec_jsonld_price parse (ld_scripts d) of
         Some v \<Rightarrow> scrape_price parse d = v \<and> truthy v
       | None \<Rightarrow> \<not> truthy (scrape_price parse d))" if "\<not> truthy (meta_price d)" for d
  proof -
    have "scrape_price parse d = scan_scripts parse (ld_scripts d) (meta_price d)"
      using that by (simp add: scrape_price_def Let_def)
    then show ?thesis
      using scan_scripts_jsonld_price [OF that, of parse "ld_scripts d"]
      by (simp split: option.splits)
  qed
  have tier1: "\<not> truthy (meta_price [ld_script graph_block_text])"
    by (simp add: soup_defs)
  have "spec_jsonld_price parse (ld_scripts [ld_script graph_block_text]) = Some (JStr ''42.00'')"
    if "parse graph_block_text = Some graph_block_json"
    using that
    by (simp add: ld_scripts_def soup_find_all_def all_nodes_def ld_script_def spec_block_price_def
        load_script_def graph_block_json_def)
  with general [OF tier1] have "parse graph_block_text = Some graph_block_json \<longrightarrow>
      scrape_price parse [ld_script graph_block_text] = JStr ''42.00''"
    by auto
  with general show ?thesis by blast
qed

text \<open>
  A block that does not parse, then the \<^verbatim>\<open>@graph\<close> block, then a block with the
  price 29.99: the result is 42.00.
\<close>

theorem jsonld_scan_witness:
  "scrape_price demo_loads [ld_script broken_block_text, ld_script graph_block_text,
      ld_script offer_block_text] = JStr ''42.00'' \<and>
   scrape_price demo_loads [ld_script graph_block_text] = JStr ''42.00''"
  using jsonld_scan [of "[ld_script broken_block_text, ld_script graph_block_text,
      ld_script offer_block_text]" demo_loads]
  by (simp add: soup_defs spec_block_price_def text_defs)

text \<open>
  Claim C4 as stated fails twice. In the block
  \<^verbatim>\<open>{"@graph":[{"offers":[]},{"offers":{"price":"5"}}]}\<close> the first non-empty price
  is 5, but \<^verbatim>\<open>offers[0]\<close> raises on the empty list of the first candidate, the block
  is left, and the price stays \<^verbatim>\<open>None\<close>. In the block
  \<^verbatim>\<open>{"@graph":{"@type":"Product"},"offers":{"price":"5"}}\<close> the \<^verbatim>\<open>@graph\<close> is not
  an array, yet the object itself is not taken as the candidate: the loop runs over the
  keys of \<^verbatim>\<open>@graph\<close>, and the price stays \<^verbatim>\<open>None\<close>.
\<close>

theorem jsonld_scan_counterexample:
  "scrape_price demo_loads [ld_script empty_offers_text] = JNull \<and>
   scrape_price demo_loads [ld_script graph_object_text] = JNull"
  by (simp add: soup_defs text_defs)

end
